theory Spec2Isabelle
  imports Main "HOL-Library.Sublist" "HOL-Library.AList"
begin

section \<open>Python values and exceptions\<close>

text \<open>
  The objects that \<^verbatim>\<open>response.json()\<close> hands to the client: \<^verbatim>\<open>None\<close>, booleans,
  whole numbers, strings, lists and dicts. A dict is kept as the list of its items
  (every key once, in insertion order). Numbers with a fraction are not modelled.
\<close>

datatype json =
    JNull
  | JBool bool
  | JNum int
  | JStr string
  | JArr "json list"
  | JObj "(string \<times> json) list"

text \<open>
  Every exception the modelled code can raise is a value. \<open>McmdError\<close> carries the
  object it was constructed with; \<open>HTTPError\<close> and \<open>RequestException\<close> carry the text
  \<^verbatim>\<open>str(e)\<close> gives (\<open>RequestException\<close> stands for the transport failures of the
  requests library, all but \<open>HTTPError\<close>); \<open>SystemExit\<close> is \<^verbatim>\<open>exit(n)\<close>; \<open>AuthError\<close> is a failed login;
  \<open>OtherError\<close> is any exception of a collaborator that is not listed.
\<close>

datatype error =
    McmdError json
  | HTTPError string
  | RequestException string
  | JSONDecodeError
  | KeyError string
  | IndexError
  | TypeError
  | AttributeError
  | ValueError
  | RecursionError
  | OSError string
  | SystemExit nat
  | AuthError string
  | OtherError string

text \<open>\<^verbatim>\<open>key in obj\<close> for a string key: membership in a dict's keys, in a list's
  elements, substring of a string; any other operand is not iterable.\<close>

fun py_in :: "string \<Rightarrow> json \<Rightarrow> error + bool" where
  "py_in k (JObj kvs) = Inr (map_of kvs k \<noteq> None)"
| "py_in k (JArr xs) = Inr (JStr k \<in> set xs)"
| "py_in k (JStr s) = Inr (sublist k s)"
| "py_in k _ = Inl TypeError"

text \<open>\<^verbatim>\<open>obj[key]\<close> for a string key: only a dict accepts it.\<close>

fun py_getitem :: "json \<Rightarrow> string \<Rightarrow> error + json" where
  "py_getitem (JObj kvs) k = (case map_of kvs k of None \<Rightarrow> Inl (KeyError k) | Some v \<Rightarrow> Inr v)"
| "py_getitem _ k = Inl TypeError"

text \<open>\<^verbatim>\<open>obj[0]\<close>: the first element of a list, the first character of a string; a
  dict has string keys only, so the key \<open>0\<close> is missing.\<close>

fun py_item0 :: "json \<Rightarrow> error + json" where
  "py_item0 (JArr []) = Inl IndexError"
| "py_item0 (JArr (x # xs)) = Inr x"
| "py_item0 (JStr []) = Inl IndexError"
| "py_item0 (JStr (c # cs)) = Inr (JStr [c])"
| "py_item0 (JObj kvs) = Inl (KeyError ''0'')"
| "py_item0 _ = Inl TypeError"

text \<open>The elements a \<^verbatim>\<open>for\<close> loop visits, in order.\<close>

fun py_iter :: "json \<Rightarrow> error + json list" where
  "py_iter (JArr xs) = Inr xs"
| "py_iter (JStr s) = Inr (map (\<lambda>c. JStr [c]) s)"
| "py_iter (JObj kvs) = Inr (map (\<lambda>kv. JStr (fst kv)) kvs)"
| "py_iter _ = Inl TypeError"

text \<open>\<^verbatim>\<open>obj.startswith(p)\<close>: only strings have the attribute.\<close>

fun py_startswith :: "json \<Rightarrow> string \<Rightarrow> error + bool" where
  "py_startswith (JStr s) p = Inr (prefix p s)"
| "py_startswith _ p = Inl AttributeError"

text \<open>
  Text is a list of 8-bit characters here, while a Python \<^verbatim>\<open>str\<close> is a list of Unicode
  code points: text outside ASCII has no faithful picture in this type. The built-ins
  whose result depends on that, \<^verbatim>\<open>str.upper()\<close> and \<^verbatim>\<open>int()\<close> of a string, are
  therefore taken from the interpreter as parameters (see \<open>runtime\<close> below). On ASCII
  text \<^verbatim>\<open>str.upper()\<close> is known: it maps the letters a to z to A to Z and keeps every
  other character; \<open>upper\<close> is that mapping, and \<open>is_ascii\<close> is its domain.
\<close>

definition is_ascii :: "string \<Rightarrow> bool" where
  "is_ascii s = list_all (\<lambda>c. (of_char c :: nat) < 128) s"

definition upper_char :: "char \<Rightarrow> char" where
  "upper_char c =
     (case map_of (zip ''abcdefghijklmnopqrstuvwxyz'' ''ABCDEFGHIJKLMNOPQRSTUVWXYZ'') c of
        None \<Rightarrow> c
      | Some u \<Rightarrow> u)"

definition upper :: "string \<Rightarrow> string" where
  "upper s = map upper_char s"

text \<open>\<^verbatim>\<open>int(obj)\<close>: a number is itself, a boolean is 0 or 1, a string is read by the
  interpreter's parser \<open>parse\<close> (\<open>None\<close> when it refuses the text), anything else is a
  type error.\<close>

fun py_int :: "(string \<Rightarrow> int option) \<Rightarrow> json \<Rightarrow> error + int" where
  "py_int parse (JNum n) = Inr n"
| "py_int parse (JBool b) = Inr (if b then 1 else 0)"
| "py_int parse (JStr s) = (case parse s of None \<Rightarrow> Inl ValueError | Some n \<Rightarrow> Inr n)"
| "py_int parse _ = Inl TypeError"

text \<open>\<^verbatim>\<open>str(n)\<close> for a natural number.\<close>

fun str_nat :: "nat \<Rightarrow> string" where
  "str_nat n =
     (if n < 10 then [''0123456789'' ! n]
      else str_nat (n div 10) @ [''0123456789'' ! (n mod 10)])"

section \<open>HTTP responses (the requests library)\<close>

text \<open>
  A response as the client reads it: status code, reason phrase, URL, headers, and the
  object its payload parses to (\<open>None\<close> when the payload is not JSON, where
  \<^verbatim>\<open>response.json()\<close> raises). The headers are the items of the header dictionary;
  the requests library ignores the case of a header's name there, and the key
  \<open>''Content-Type''\<close> stands for every spelling of it.
\<close>

record response =
  status_code :: nat
  reason :: string
  url :: string
  headers :: "(string \<times> string) list"
  body :: "json option"

definition json_of :: "response \<Rightarrow> error + json" where
  "json_of r = (case body r of None \<Rightarrow> Inl JSONDecodeError | Some j \<Rightarrow> Inr j)"

definition http_error_msg :: "response \<Rightarrow> string" where
  "http_error_msg r =
     str_nat (status_code r)
     @ (if status_code r < 500 then '' Client Error: '' else '' Server Error: '')
     @ reason r @ '' for url: '' @ url r"

text \<open>\<^verbatim>\<open>response.raise_for_status()\<close>: an \<open>HTTPError\<close> for the status codes 400 to 599.\<close>

definition raise_for_status :: "response \<Rightarrow> error + unit" where
  "raise_for_status r =
     (if 400 \<le> status_code r \<and> status_code r < 600 then Inl (HTTPError (http_error_msg r))
      else Inr ())"

section \<open>The request wrapper (mcmd/client/molgenis\_client.py)\<close>

datatype ResourceType = ENTITY_TYPE | THEME | PACKAGE | PLUGIN

fun get_entity_id :: "ResourceType \<Rightarrow> string" where
  "get_entity_id ENTITY_TYPE = ''sys_md_EntityType''"
| "get_entity_id THEME = ''sys_set_StyleSheet''"
| "get_entity_id PACKAGE = ''sys_md_Package''"
| "get_entity_id PLUGIN = ''sys_Plugin''"

fun get_resource_name :: "ResourceType \<Rightarrow> string" where
  "get_resource_name ENTITY_TYPE = ''entityclass''"
| "get_resource_name THEME = ''stylesheet''"
| "get_resource_name PACKAGE = ''package''"
| "get_resource_name PLUGIN = ''plugin''"

fun get_label :: "ResourceType \<Rightarrow> string" where
  "get_label ENTITY_TYPE = ''Entity Type''"
| "get_label THEME = ''Stylesheet''"
| "get_label PACKAGE = ''Package''"
| "get_label PLUGIN = ''Plugin''"

text \<open>
  \<open>PrincipalType\<close> has the members \<open>USER\<close> and \<open>ROLE\<close>. Python does not type the
  argument, so a caller can pass any other object: \<open>Unrecognized s\<close> is such an object,
  \<open>s\<close> the text \<^verbatim>\<open>'%s'\<close> formats it to. Only a member has a \<^verbatim>\<open>.value\<close>.
\<close>

datatype PrincipalType = USER | ROLE | Unrecognized string

fun principal_value :: "PrincipalType \<Rightarrow> error + string" where
  "principal_value USER = Inr ''user''"
| "principal_value ROLE = Inr ''role''"
| "principal_value (Unrecognized s) = Inl AttributeError"

text \<open>\<open>handle_json_error\<close>: raises for the first element the loop over \<open>errors\<close>
  visits, else for \<open>errorMessage\<close>, else returns.\<close>

definition handle_json_error :: "json \<Rightarrow> error + unit" where
  "handle_json_error response_json =
     (case py_in ''errors'' response_json of
        Inl e \<Rightarrow> Inl e
      | Inr True \<Rightarrow>
          (case py_getitem response_json ''errors'' of
             Inl e \<Rightarrow> Inl e
           | Inr errors \<Rightarrow>
               (case py_iter errors of
                  Inl e \<Rightarrow> Inl e
                | Inr [] \<Rightarrow> Inr ()
                | Inr (err # rest) \<Rightarrow>
                    (case py_getitem err ''message'' of
                       Inl e \<Rightarrow> Inl e
                     | Inr m \<Rightarrow> Inl (McmdError m))))
      | Inr False \<Rightarrow>
          (case py_in ''errorMessage'' response_json of
             Inl e \<Rightarrow> Inl e
           | Inr True \<Rightarrow>
               (case py_getitem response_json ''errorMessage'' of
                  Inl e \<Rightarrow> Inl e
                | Inr m \<Rightarrow> Inl (McmdError m))
           | Inr False \<Rightarrow> Inr ()))"

definition is_json :: "response \<Rightarrow> bool" where
  "is_json r =
     (case map_of (headers r) ''Content-Type'' of
        None \<Rightarrow> False
      | Some ct \<Rightarrow> ct \<noteq> [] \<and> sublist ''application/json'' ct)"

text \<open>The condition of the inner \<^verbatim>\<open>if\<close> of \<open>token_is_valid\<close>, evaluated left to right
  with Python's short-circuit \<^verbatim>\<open>and\<close>.\<close>

definition is_no_read_metadata :: "json \<Rightarrow> error + bool" where
  "is_no_read_metadata err =
     (case py_in ''code'' err of
        Inl e \<Rightarrow> Inl e
      | Inr False \<Rightarrow> Inr False
      | Inr True \<Rightarrow>
          (case py_getitem err ''code'' of
             Inl e \<Rightarrow> Inl e
           | Inr c \<Rightarrow>
               (if c \<noteq> JStr ''DS04'' then Inr False
                else (case py_in ''message'' err of
                        Inl e \<Rightarrow> Inl e
                      | Inr False \<Rightarrow> Inr False
                      | Inr True \<Rightarrow>
                          (case py_getitem err ''message'' of
                             Inl e \<Rightarrow> Inl e
                           | Inr m \<Rightarrow> py_startswith m ''No 'Read metadata' permission'')))))"

definition token_is_valid :: "response \<Rightarrow> error + bool" where
  "token_is_valid r =
     (if status_code r = 401 \<and> is_json r then
        (case json_of r of
           Inl e \<Rightarrow> Inl e
         | Inr j \<Rightarrow>
             (case py_getitem j ''errors'' of
                Inl e \<Rightarrow> Inl e
              | Inr errors \<Rightarrow>
                  (case py_item0 errors of
                     Inl e \<Rightarrow> Inl e
                   | Inr err \<Rightarrow>
                       (case is_no_read_metadata err of
                          Inl e \<Rightarrow> Inl e
                        | Inr hit \<Rightarrow> Inr (\<not> hit)))))
      else Inr True)"

text \<open>The last three lines of the \<open>HTTPError\<close> handler of \<open>handle_request\<close>: they
  always raise; \<open>msg\<close> is \<^verbatim>\<open>str(e)\<close>.\<close>

definition decode_error :: "response \<Rightarrow> string \<Rightarrow> error" where
  "decode_error r msg =
     (if is_json r then
        (case json_of r of
           Inl e \<Rightarrow> e
         | Inr j \<Rightarrow>
             (case handle_json_error j of
                Inl e \<Rightarrow> e
              | Inr _ \<Rightarrow> McmdError (JStr msg)))
      else McmdError (JStr msg))"

text \<open>
  \<open>handle_request\<close>, the function the \<open>request\<close> decorator returns. \<open>func\<close> is the
  decorated function applied to its arguments and \<open>login\<close> is \<^verbatim>\<open>auth.login\<close>; both
  act on the state of the process and of the world around it, of any type \<open>'w\<close>, and
  either return or raise. The function calls itself for the retry; the first argument
  is the number of nested activations the interpreter's recursion limit still allows,
  and \<open>RecursionError\<close> is raised when none is left.

  An exception raised inside the handler is not caught by the sibling
  \<^verbatim>\<open>except\<close> clause. A \<open>func\<close> that raises \<open>HTTPError\<close> itself leaves
  \<open>response\<close> the empty string, whose \<^verbatim>\<open>status_code\<close> does not exist.
\<close>

fun handle_request ::
  "nat \<Rightarrow> ('w \<Rightarrow> (error + unit) \<times> 'w) \<Rightarrow> ('w \<Rightarrow> (error + response) \<times> 'w)
     \<Rightarrow> 'w \<Rightarrow> (error + response) \<times> 'w" where
  "handle_request 0 login func w = (Inl RecursionError, w)"
| "handle_request (Suc depth) login func w =
     (case func w of
        (Inl (RequestException msg), w1) \<Rightarrow> (Inl (McmdError (JStr msg)), w1)
      | (Inl (HTTPError msg), w1) \<Rightarrow> (Inl AttributeError, w1)
      | (Inl e, w1) \<Rightarrow> (Inl e, w1)
      | (Inr r, w1) \<Rightarrow>
          (case raise_for_status r of
             Inr _ \<Rightarrow> (Inr r, w1)
           | Inl (HTTPError msg) \<Rightarrow>
               (case token_is_valid r of
                  Inl e \<Rightarrow> (Inl e, w1)
                | Inr True \<Rightarrow> (Inl (decode_error r msg), w1)
                | Inr False \<Rightarrow>
                    (case login w1 of
                       (Inl e, w2) \<Rightarrow> (Inl e, w2)
                     | (Inr _, w2) \<Rightarrow>
                         (case handle_request depth login func w2 of
                            (Inl e, w3) \<Rightarrow> (Inl e, w3)
                          | (Inr _, w3) \<Rightarrow> (Inl (decode_error r msg), w3))))
           | Inl e \<Rightarrow> (Inl e, w1)))"

section \<open>The process and the remote API\<close>

text \<open>
  What a call of the requests library sends: the HTTP verb, the URL, the headers and
  the \<^verbatim>\<open>data\<close> argument (absent, a form dictionary, or a JSON document).
\<close>

datatype payload = NoData | FormData "(string \<times> string) list" | JsonData json

record http_request =
  verb :: string
  target :: string
  req_headers :: "(string \<times> string) list"
  payload :: payload

text \<open>
  The remote API is any deterministic server: its answer to a request is a function of
  all requests it has received, the latest last. It answers with a response, or the
  exchange fails in transport with the text of the exception.
\<close>

datatype reply = Answer response | Failure string

type_synonym server = "http_request list \<Rightarrow> reply"

text \<open>The state of the process: the session token of the \<^verbatim>\<open>auth\<close> module, and the
  requests issued so far, in order.\<close>

record world =
  token :: string
  sent :: "http_request list"

text \<open>\<^verbatim>\<open>requests.get\<close>, \<^verbatim>\<open>requests.post\<close>: one exchange with the server.\<close>

definition http_send :: "server \<Rightarrow> http_request \<Rightarrow> world \<Rightarrow> (error + response) \<times> world" where
  "http_send srv rq w =
     (case srv (sent w @ [rq]) of
        Failure msg \<Rightarrow> Inl (RequestException msg)
      | Answer r \<Rightarrow> Inr r,
      w\<lparr>sent := sent w @ [rq]\<rparr>)"

text \<open>
  What the client module reaches through its imports and its interpreter:
  \<^verbatim>\<open>config.api\<close> (the base URL of each endpoint), \<^verbatim>\<open>auth.login\<close>, the server behind the
  requests library, the recursion limit, and the two built-ins that read text:
  \<^verbatim>\<open>str.upper()\<close> and \<^verbatim>\<open>int()\<close> of a string. \<^verbatim>\<open>auth.get_token()\<close> reads \<open>token\<close>.
\<close>

record runtime =
  api :: "string \<Rightarrow> string"
  auth_login :: "world \<Rightarrow> (error + unit) \<times> world"
  remote :: server
  recursion_limit :: nat
  str_upper :: "string \<Rightarrow> string"
  str_int :: "string \<Rightarrow> int option"

definition get_default_headers :: "world \<Rightarrow> (string \<times> string) list" where
  "get_default_headers w =
     [(''Content-Type'', ''application/json''), (''x-molgenis-token'', token w)]"

text \<open>What \<open>get\<close> hands to \<^verbatim>\<open>requests.get\<close>; the token is read when the call is made.\<close>

definition get_request :: "string \<Rightarrow> world \<Rightarrow> http_request" where
  "get_request address w =
     \<lparr>verb = ''GET'', target = address,
      req_headers = get_default_headers w, payload = NoData\<rparr>"

text \<open>The decorated \<open>get\<close>: \<open>handle_request\<close> around \<^verbatim>\<open>requests.get\<close>.\<close>

definition get :: "runtime \<Rightarrow> string \<Rightarrow> world \<Rightarrow> (error + response) \<times> world" where
  "get E address w =
     handle_request (recursion_limit E) (auth_login E)
       (\<lambda>w'. http_send (remote E) (get_request address w') w') w"

text \<open>The body of \<open>grant\<close> up to the \<^verbatim>\<open>raise\<close>: the form dictionary, built in
  insertion order.\<close>

definition grant_data ::
  "runtime \<Rightarrow> PrincipalType \<Rightarrow> string \<Rightarrow> string \<Rightarrow> string
     \<Rightarrow> error + (string \<times> string) list" where
  "grant_data E principal_type principal_name identifier permission =
     (let data = [(''radio-'' @ identifier, permission)] in
      case principal_type of
        USER \<Rightarrow> Inr (AList.update ''username'' principal_name data)
      | ROLE \<Rightarrow> Inr (AList.update ''rolename'' (str_upper E principal_name) data)
      | Unrecognized s \<Rightarrow> Inl (McmdError (JStr (''Unknown principal type: '' @ s))))"

text \<open>The function that \<open>request\<close> decorates as \<open>grant\<close>.\<close>

definition grant_func ::
  "runtime \<Rightarrow> PrincipalType \<Rightarrow> string \<Rightarrow> ResourceType \<Rightarrow> string \<Rightarrow> string
     \<Rightarrow> world \<Rightarrow> (error + response) \<times> world" where
  "grant_func E principal_type principal_name resource_type identifier permission w =
     (case grant_data E principal_type principal_name identifier permission of
        Inl e \<Rightarrow> (Inl e, w)
      | Inr data \<Rightarrow>
          (case principal_value principal_type of
             Inl e \<Rightarrow> (Inl e, w)
           | Inr v \<Rightarrow>
               http_send (remote E)
                 \<lparr>verb = ''POST'',
                  target = api E ''perm'' @ get_resource_name resource_type @ ''/'' @ v,
                  req_headers =
                    [(''Content-Type'', ''application/x-www-form-urlencoded; charset=UTF-8''),
                     (''x-molgenis-token'', token w)],
                  payload = FormData data\<rparr> w))"

definition grant ::
  "runtime \<Rightarrow> PrincipalType \<Rightarrow> string \<Rightarrow> ResourceType \<Rightarrow> string \<Rightarrow> string
     \<Rightarrow> world \<Rightarrow> (error + response) \<times> world" where
  "grant E principal_type principal_name resource_type identifier permission w =
     handle_request (recursion_limit E) (auth_login E)
       (grant_func E principal_type principal_name resource_type identifier permission) w"

text \<open>\<open>resource_exists\<close>; the debug log line has no effect on the result.\<close>

definition resource_exists ::
  "runtime \<Rightarrow> string \<Rightarrow> ResourceType \<Rightarrow> world \<Rightarrow> (error + bool) \<times> world" where
  "resource_exists E resource_id resource_type w =
     (case get E (api E ''rest2'' @ get_entity_id resource_type @ ''?q=id=='' @ resource_id) w of
        (Inl e, w1) \<Rightarrow> (Inl e, w1)
      | (Inr r, w1) \<Rightarrow>
          (case json_of r of
             Inl e \<Rightarrow> (Inl e, w1)
           | Inr j \<Rightarrow>
               (case py_getitem j ''total'' of
                  Inl e \<Rightarrow> (Inl e, w1)
                | Inr t \<Rightarrow>
                    (case py_int (str_int E) t of
                       Inl e \<Rightarrow> (Inl e, w1)
                     | Inr n \<Rightarrow> (Inr (n > 0), w1)))))"

definition ensure_resource_exists ::
  "runtime \<Rightarrow> string \<Rightarrow> ResourceType \<Rightarrow> world \<Rightarrow> (error + unit) \<times> world" where
  "ensure_resource_exists E resource_id resource_type w =
     (case resource_exists E resource_id resource_type w of
        (Inl e, w1) \<Rightarrow> (Inl e, w1)
      | (Inr found, w1) \<Rightarrow>
          (if \<not> found then
             (Inl (McmdError (JStr (''No '' @ get_label resource_type @ '' found with id ''
                                    @ resource_id))), w1)
           else (Inr (), w1)))"

text \<open>
  Modelled from the spec: \<^verbatim>\<open>auth.login\<close> (mcmd/client/auth.py is not among the sources).
  Spec 4.1: it "reads configured username/password, issues a credential-exchange
  request, stores the returned token as current session state; fails with AuthError if
  the response lacks a token or the transport fails". It is used for concrete runs only;
  every general statement below takes the login as a parameter.
\<close>

definition login_by_spec ::
  "server \<Rightarrow> string \<Rightarrow> string \<Rightarrow> string \<Rightarrow> world \<Rightarrow> (error + unit) \<times> world" where
  "login_by_spec srv login_url username password w =
     (case http_send srv
             \<lparr>verb = ''POST'', target = login_url,
              req_headers = [(''Content-Type'', ''application/json'')],
              payload = JsonData (JObj [(''username'', JStr username),
                                        (''password'', JStr password)])\<rparr> w of
        (Inl e, w1) \<Rightarrow> (Inl (AuthError ''transport failure''), w1)
      | (Inr r, w1) \<Rightarrow>
          (case body r of
             Some (JObj members) \<Rightarrow>
               (case map_of members ''token'' of
                  Some (JStr t) \<Rightarrow> (Inr (), w1\<lparr>token := t\<rparr>)
                | _ \<Rightarrow> (Inl (AuthError ''no token''), w1))
           | _ \<Rightarrow> (Inl (AuthError ''no token''), w1)))"

section \<open>The invalid-session condition in the words of the specification\<close>

text \<open>
  The four conditions under which a response counts as an invalid or expired session:
  the status code is 401, the Content-Type header contains \<open>application/json\<close>, the
  first structured error has the code \<open>DS04\<close>, and that error's message starts with
  \<open>No 'Read metadata' permission\<close>. This predicate is written from the specification
  and compared with \<open>token_is_valid\<close> below.
\<close>

definition invalid_session_response :: "response \<Rightarrow> bool" where
  "invalid_session_response r =
     (status_code r = 401
      \<and> (case map_of (headers r) ''Content-Type'' of
            None \<Rightarrow> False
          | Some ct \<Rightarrow> sublist ''application/json'' ct)
      \<and> (case body r of
            Some (JObj members) \<Rightarrow>
              (case map_of members ''errors'' of
                 Some (JArr (JObj err # rest)) \<Rightarrow>
                   map_of err ''code'' = Some (JStr ''DS04'')
                   \<and> (case map_of err ''message'' of
                         Some (JStr m) \<Rightarrow> prefix ''No 'Read metadata' permission'' m
                       | _ \<Rightarrow> False)
               | _ \<Rightarrow> False)
          | _ \<Rightarrow> False))"

section \<open>The script runners (mcmd/commands/run.py and mdev/\_\_main\_\_.py)\<close>

text \<open>\<^verbatim>\<open>line.split(' ')\<close>: the pieces between single spaces, empty pieces included.\<close>

fun split_from :: "string \<Rightarrow> string \<Rightarrow> string list" where
  "split_from piece [] = [piece]"
| "split_from piece (c # cs) =
     (if c = CHR '' '' then piece # split_from [] cs else split_from (piece @ [c]) cs)"

definition split_space :: "string \<Rightarrow> string list" where
  "split_space line = split_from [] line"

text \<open>\<^verbatim>\<open>[line.rstrip('\\n') for line in file]\<close>: the lines of the text, each without its
  line feed; text after the last line feed is a line of its own when it is not empty.\<close>

fun lines_from :: "string \<Rightarrow> string \<Rightarrow> string list" where
  "lines_from piece [] = (if piece = [] then [] else [piece])"
| "lines_from piece (c # cs) =
     (if c = CHR 0x0A then piece # lines_from [] cs else lines_from (piece @ [c]) cs)"

definition file_lines :: "string \<Rightarrow> string list" where
  "file_lines content = lines_from [] content"

text \<open>
  A parsed command line: the \<^verbatim>\<open>command\<close> attribute, and every other attribute of the
  namespace by name. The arguments of the run command itself: the script and the
  \<^verbatim>\<open>--ignore-errors\<close> flag.
\<close>

record parsed =
  command :: string
  attrs :: "(string \<times> string) list"

record run_args =
  script :: string
  ignore_errors :: bool

text \<open>
  The collaborators of the runners, none of them among the sources: the argument
  parser (\<^verbatim>\<open>parse_args\<close>, \<^verbatim>\<open>parse_arg_string\<close>; it raises on a line it rejects), the
  dispatch of one parsed command with the \<^verbatim>\<open>exit_on_error\<close> flag
  (\<^verbatim>\<open>sub_args.func\<close>, \<^verbatim>\<open>execute\<close>), \<^verbatim>\<open>logging.error\<close>, \<^verbatim>\<open>history.write\<close> and the
  reading of the script file (the text of the file, or the text of the \<open>OSError\<close>).
  They act on a state of any type \<open>'w\<close>.
\<close>

record 'w shell =
  parse_line :: "string list \<Rightarrow> error + parsed"
  run_command :: "parsed \<Rightarrow> bool \<Rightarrow> 'w \<Rightarrow> (error + unit) \<times> 'w"
  log_error :: "string \<Rightarrow> 'w \<Rightarrow> 'w"
  history_write :: "string \<Rightarrow> 'w \<Rightarrow> (error + unit) \<times> 'w"
  read_script :: "string \<Rightarrow> string + string"

text \<open>The loop of \<open>run\<close> in mcmd/commands/run.py.\<close>

fun mcmd_run_lines :: "'w shell \<Rightarrow> bool \<Rightarrow> string list \<Rightarrow> 'w \<Rightarrow> (error + unit) \<times> 'w" where
  "mcmd_run_lines sh exit_on_error [] w = (Inr (), w)"
| "mcmd_run_lines sh exit_on_error (line # lines) w =
     (case parse_line sh (split_space line) of
        Inl e \<Rightarrow> (Inl e, w)
      | Inr parsed_line \<Rightarrow>
          (let sub_args = parsed_line\<lparr>attrs := AList.update ''arg_string'' line (attrs parsed_line)\<rparr>
           in if command sub_args = ''run'' then
                (Inl (McmdError (JStr (''Can't use the run command in a script: '' @ line))), w)
              else
                (case run_command sh sub_args exit_on_error w of
                   (Inl e, w1) \<Rightarrow> (Inl e, w1)
                 | (Inr _, w1) \<Rightarrow> mcmd_run_lines sh exit_on_error lines w1)))"

text \<open>\<open>run\<close> of mcmd: a script that cannot be read is an \<open>McmdError\<close>; the flag
  \<^verbatim>\<open>exit_on_error\<close> is the negation of \<^verbatim>\<open>--ignore-errors\<close>. \<open>read_script\<close> stands for
  resolving the name against the scripts folder and reading the file.\<close>

definition mcmd_run :: "'w shell \<Rightarrow> run_args \<Rightarrow> 'w \<Rightarrow> (error + unit) \<times> 'w" where
  "mcmd_run sh args w =
     (case read_script sh (script args) of
        Inl msg \<Rightarrow> (Inl (McmdError (JStr (''Error reading script: '' @ msg))), w)
      | Inr content \<Rightarrow> mcmd_run_lines sh (\<not> ignore_errors args) (file_lines content) w)"

text \<open>The loop of \<open>run\<close> in mdev/\_\_main\_\_.py.\<close>

fun mdev_run_lines :: "'w shell \<Rightarrow> bool \<Rightarrow> string list \<Rightarrow> 'w \<Rightarrow> (error + unit) \<times> 'w" where
  "mdev_run_lines sh exit_on_error [] w = (Inr (), w)"
| "mdev_run_lines sh exit_on_error (line # lines) w =
     (case parse_line sh (split_space line) of
        Inl e \<Rightarrow> (Inl e, w)
      | Inr sub_args \<Rightarrow>
          (if command sub_args = ''run'' then
             (let w1 = log_error sh (''Can't use the run command in a script: '' @ line) w
              in if exit_on_error then (Inl (SystemExit 1), w1)
                 else mdev_run_lines sh exit_on_error lines w1)
           else
             (case history_write sh line w of
                (Inl e, w1) \<Rightarrow> (Inl e, w1)
              | (Inr _, w1) \<Rightarrow>
                  (case run_command sh sub_args exit_on_error w1 of
                     (Inl e, w2) \<Rightarrow> (Inl e, w2)
                   | (Inr _, w2) \<Rightarrow> mdev_run_lines sh exit_on_error lines w2))))"

text \<open>\<open>run\<close> of mdev: the \<open>OSError\<close> of a script that cannot be read is not caught.\<close>

definition mdev_run :: "'w shell \<Rightarrow> run_args \<Rightarrow> 'w \<Rightarrow> (error + unit) \<times> 'w" where
  "mdev_run sh args w =
     (case read_script sh (script args) of
        Inl msg \<Rightarrow> (Inl (OSError msg), w)
      | Inr content \<Rightarrow> mdev_run_lines sh (\<not> ignore_errors args) (file_lines content) w)"

text \<open>
  Modelled from the spec: the dispatch of one command (the \<^verbatim>\<open>command\<close> decorator of
  mcmd and \<^verbatim>\<open>execute\<close> of mdev are not among the sources). Spec 4.4 and 7: the flag
  is "derived from a --ignore-errors option (flag present: continue past failures;
  absent: halt on first failure)", and "a continued-past error is logged/surfaced but
  execution proceeds to the next line". \<open>action\<close> is what the command does, \<open>report\<close>
  logs its error; halting is \<^verbatim>\<open>exit(1)\<close>.
\<close>

definition dispatch_by_spec ::
  "(parsed \<Rightarrow> 'w \<Rightarrow> (error + unit) \<times> 'w) \<Rightarrow> (error \<Rightarrow> 'w \<Rightarrow> 'w)
     \<Rightarrow> parsed \<Rightarrow> bool \<Rightarrow> 'w \<Rightarrow> (error + unit) \<times> 'w" where
  "dispatch_by_spec action report sub_args exit_on_error w =
     (case action sub_args w of
        (Inr _, w1) \<Rightarrow> (Inr (), w1)
      | (Inl e, w1) \<Rightarrow>
          (if exit_on_error then (Inl (SystemExit 1), report e w1)
           else (Inr (), report e w1)))"

section \<open>Test doubles for concrete runs\<close>

text \<open>A configuration, and the responses of a mock backend: the invalid-session
  error, a successful count, a successful login, and an error payload with two
  messages.\<close>

definition mock_api :: "string \<Rightarrow> string" where
  "mock_api name =
     (if name = ''rest2'' then ''http://localhost/api/v2/''
      else if name = ''perm'' then ''http://localhost/permission/''
      else if name = ''login'' then ''http://localhost/api/v1/login''
      else [])"

definition expired_response :: response where
  "expired_response =
     \<lparr>status_code = 401, reason = ''Unauthorized'', url = ''http://localhost/api/v2/'',
      headers = [(''Content-Type'', ''application/json;charset=UTF-8'')],
      body = Some (JObj [(''errors'',
               JArr [JObj [(''message'', JStr ''No 'Read metadata' permission on entity type Package''),
                           (''code'', JStr ''DS04'')]])])\<rparr>"

definition total_response :: "int \<Rightarrow> response" where
  "total_response n =
     \<lparr>status_code = 200, reason = ''OK'', url = ''http://localhost/api/v2/'',
      headers = [(''Content-Type'', ''application/json;charset=UTF-8'')],
      body = Some (JObj [(''items'', JArr []), (''total'', JNum n)])\<rparr>"

definition token_response :: response where
  "token_response =
     \<lparr>status_code = 200, reason = ''OK'', url = ''http://localhost/api/v1/login'',
      headers = [(''Content-Type'', ''application/json;charset=UTF-8'')],
      body = Some (JObj [(''token'', JStr ''fresh'')])\<rparr>"

definition two_errors_response :: response where
  "two_errors_response =
     \<lparr>status_code = 400, reason = ''Bad Request'', url = ''http://localhost/api/v2/'',
      headers = [(''Content-Type'', ''application/json;charset=UTF-8'')],
      body = Some (JObj [(''errors'',
               JArr [JObj [(''message'', JStr ''first problem'')],
                     JObj [(''message'', JStr ''second problem'')]])])\<rparr>"

definition count_to :: "string \<Rightarrow> http_request list \<Rightarrow> nat" where
  "count_to address reqs = length (filter (\<lambda>rq. target rq = address) reqs)"

text \<open>
  \<open>mock_server k final\<close> answers every login with a token; it answers the first \<open>k\<close>
  other requests with the invalid-session error and every later one with \<open>final\<close>.
\<close>

definition mock_server :: "nat \<Rightarrow> response \<Rightarrow> server" where
  "mock_server k final reqs =
     (case rev reqs of
        [] \<Rightarrow> Failure ''no request''
      | rq # earlier \<Rightarrow>
          (if target rq = mock_api ''login'' then Answer token_response
           else if length reqs - count_to (mock_api ''login'') reqs \<le> k then Answer expired_response
           else Answer final))"

text \<open>
  The interpreter of the doubles reads ASCII text only: \<open>upper\<close> for \<^verbatim>\<open>str.upper()\<close>,
  and for \<^verbatim>\<open>int()\<close> of a string the parser \<open>ascii_int\<close> (surrounding ASCII white space,
  an optional sign, decimal digits with single underscores between digits).
\<close>

definition digit_val :: "char \<Rightarrow> int option" where
  "digit_val c = map_of (zip ''0123456789'' [0, 1, 2, 3, 4, 5, 6, 7, 8, 9]) c"

definition py_isspace :: "char \<Rightarrow> bool" where
  "py_isspace c = (c \<in> set [CHR '' '', CHR 0x09, CHR 0x0A, CHR 0x0B, CHR 0x0C, CHR 0x0D])"

definition strip :: "string \<Rightarrow> string" where
  "strip s = rev (dropWhile py_isspace (rev (dropWhile py_isspace s)))"

fun digits_val :: "int \<Rightarrow> bool \<Rightarrow> string \<Rightarrow> int option" where
  "digits_val acc prev [] = (if prev then Some acc else None)"
| "digits_val acc prev (c # cs) =
     (if c = CHR ''_'' then (if prev \<and> cs \<noteq> [] then digits_val acc False cs else None)
      else (case digit_val c of
              None \<Rightarrow> None
            | Some d \<Rightarrow> digits_val (10 * acc + d) True cs))"

definition ascii_int :: "string \<Rightarrow> int option" where
  "ascii_int s =
     (case strip s of
        [] \<Rightarrow> None
      | c # cs \<Rightarrow>
          (if c = CHR ''-'' then map_option uminus (digits_val 0 False cs)
           else if c = CHR ''+'' then digits_val 0 False cs
           else digits_val 0 False (c # cs)))"

definition mock_runtime :: "nat \<Rightarrow> response \<Rightarrow> runtime" where
  "mock_runtime k final =
     \<lparr>api = mock_api,
      auth_login = login_by_spec (mock_server k final) (mock_api ''login'') ''admin'' ''admin'',
      remote = mock_server k final,
      recursion_limit = 10,
      str_upper = upper,
      str_int = ascii_int\<rparr>"

definition fresh_world :: world where
  "fresh_world = \<lparr>token = [], sent = []\<rparr>"

definition package_query :: string where
  "package_query = ''http://localhost/api/v2/sys_md_Package?q=id==base''"

text \<open>The call of \<open>get\<close> on that query as the wrapper sees it, and the requests of a
  run in which the first call meets an invalid session: the first call, the login, and
  the retried call with the fresh token.\<close>

definition mock_call :: "nat \<Rightarrow> response \<Rightarrow> world \<Rightarrow> (error + response) \<times> world" where
  "mock_call k final w = http_send (mock_server k final) (get_request package_query w) w"

definition first_call :: http_request where
  "first_call = get_request package_query fresh_world"

definition login_request :: http_request where
  "login_request =
     \<lparr>verb = ''POST'', target = mock_api ''login'',
      req_headers = [(''Content-Type'', ''application/json'')],
      payload = JsonData (JObj [(''username'', JStr ''admin''), (''password'', JStr ''admin'')])\<rparr>"

definition retried_call :: http_request where
  "retried_call = get_request package_query \<lparr>token = ''fresh'', sent = []\<rparr>"

text \<open>
  A console for the script runners: the error log, the history file and the commands
  that were carried out, each in order. The parser takes the first piece of the line as
  the command; a command listed in \<open>failing\<close> fails after it was attempted.
\<close>

record console =
  errors_logged :: "string list"
  history :: "string list"
  attempted :: "string list"

definition first_token_parser :: "string list \<Rightarrow> error + parsed" where
  "first_token_parser argv =
     (case argv of
        [] \<Rightarrow> Inl (SystemExit 2)
      | c # rest \<Rightarrow> Inr \<lparr>command = c, attrs = []\<rparr>)"

definition recording_action :: "string list \<Rightarrow> parsed \<Rightarrow> console \<Rightarrow> (error + unit) \<times> console" where
  "recording_action failing a c =
     (if command a \<in> set failing then Inl (McmdError (JStr (''failed: '' @ command a)))
      else Inr (),
      c\<lparr>attempted := attempted c @ [command a]\<rparr>)"

definition console_log :: "string \<Rightarrow> console \<Rightarrow> console" where
  "console_log msg c = c\<lparr>errors_logged := errors_logged c @ [msg]\<rparr>"

definition console_report :: "error \<Rightarrow> console \<Rightarrow> console" where
  "console_report e c =
     console_log (case e of McmdError (JStr msg) \<Rightarrow> msg | _ \<Rightarrow> ''error'') c"

definition console_history :: "string \<Rightarrow> console \<Rightarrow> (error + unit) \<times> console" where
  "console_history line c = (Inr (), c\<lparr>history := history c @ [line]\<rparr>)"

definition recording_shell :: "string list \<Rightarrow> string \<Rightarrow> console shell" where
  "recording_shell failing content =
     \<lparr>parse_line = first_token_parser,
      run_command = dispatch_by_spec (recording_action failing) console_report,
      log_error = console_log,
      history_write = console_history,
      read_script = (\<lambda>name. if name = ''demo.script'' then Inr content
                             else Inl ''No such file or directory'')\<rparr>"

text \<open>Two scripts: one whose first line invokes the run command, and one of three
  lines whose second command fails.\<close>

definition nested_script :: string where
  "nested_script = ''run other.script'' @ [CHR 0x0A] @ ''add user bob'' @ [CHR 0x0A]"

definition three_line_script :: string where
  "three_line_script =
     ''add user bob'' @ [CHR 0x0A] @ ''fail now'' @ [CHR 0x0A] @ ''make bob admin'' @ [CHR 0x0A]"

definition blank_console :: console where
  "blank_console = \<lparr>errors_logged = [], history = [], attempted = []\<rparr>"

section \<open>Properties\<close>

subsection \<open>The invalid-session test\<close>

lemma is_no_read_metadata_True:
  "is_no_read_metadata err = Inr True \<longleftrightarrow>
     (\<exists>kvs m. err = JObj kvs \<and> map_of kvs ''code'' = Some (JStr ''DS04'')
        \<and> map_of kvs ''message'' = Some (JStr m) \<and> prefix ''No 'Read metadata' permission'' m)"
proof (cases err)
  case (JObj kvs)
  show ?thesis
  proof (cases "map_of kvs ''code''")
    case None
    with JObj show ?thesis by (simp add: is_no_read_metadata_def)
  next
    case (Some c)
    show ?thesis
    proof (cases "map_of kvs ''message''")
      case None
      with JObj Some show ?thesis by (simp add: is_no_read_metadata_def)
    next
      case (Some m)
      with JObj \<open>map_of kvs ''code'' = Some c\<close> show ?thesis
        by (cases m) (simp_all add: is_no_read_metadata_def)
    qed
  qed
qed (simp_all add: is_no_read_metadata_def split: bool.splits)

lemma py_item0_JObj:
  "py_item0 errs = Inr (JObj kvs) \<longleftrightarrow> (\<exists>rest. errs = JArr (JObj kvs # rest))"
  by (induction errs rule: py_item0.induct) simp_all

lemma py_getitem_Inr:
  "py_getitem j k = Inr v \<longleftrightarrow> (\<exists>kvs. j = JObj kvs \<and> map_of kvs k = Some v)"
  by (cases j) (auto split: option.splits)

lemma token_is_valid_cases:
  "token_is_valid r = Inr False \<longleftrightarrow>
     (status_code r = 401 \<and> is_json r \<and>
       (\<exists>j errs err. body r = Some j \<and> py_getitem j ''errors'' = Inr errs \<and> py_item0 errs = Inr err
            \<and> is_no_read_metadata err = Inr True))"
  by (auto simp: token_is_valid_def json_of_def split: sum.splits option.splits)

lemma invalid_session_body:
  assumes "(case b of
            Some (JObj members) \<Rightarrow>
              (case map_of members ''errors'' of
                 Some (JArr (JObj err # rest)) \<Rightarrow>
                   map_of err ''code'' = Some (JStr ''DS04'')
                   \<and> (case map_of err ''message'' of
                         Some (JStr m) \<Rightarrow> prefix ''No 'Read metadata' permission'' m
                       | _ \<Rightarrow> False)
               | _ \<Rightarrow> False)
          | _ \<Rightarrow> False)"
  shows "\<exists>members kvs rest m. b = Some (JObj members)
            \<and> map_of members ''errors'' = Some (JArr (JObj kvs # rest))
            \<and> map_of kvs ''code'' = Some (JStr ''DS04'')
            \<and> map_of kvs ''message'' = Some (JStr m)
            \<and> prefix ''No 'Read metadata' permission'' m"
proof -
  from assms obtain j where b: "b = Some j" by (cases b) auto
  from assms b obtain members where j: "j = JObj members" by (cases j) auto
  from assms b j obtain es where es: "map_of members ''errors'' = Some es"
    by (cases "map_of members ''errors''") auto
  from assms b j es obtain xs where xs: "es = JArr xs" by (cases es) auto
  from assms b j es xs obtain x rest where xr: "xs = x # rest" by (cases xs) auto
  from assms b j es xs xr obtain kvs where kvs: "x = JObj kvs" by (cases x) auto
  from assms b j es xs xr kvs have code: "map_of kvs ''code'' = Some (JStr ''DS04'')" by simp
  from assms b j es xs xr kvs obtain mv where mv: "map_of kvs ''message'' = Some mv"
    by (cases "map_of kvs ''message''") auto
  from assms b j es xs xr kvs mv obtain m where m: "mv = JStr m" by (cases mv) auto
  from assms b j es xs xr kvs mv m have "prefix ''No 'Read metadata' permission'' m" by simp
  with b j es xs xr kvs code mv m show ?thesis by blast
qed

lemma invalid_session_response_iff:
  "invalid_session_response r \<longleftrightarrow>
     (status_code r = 401 \<and> is_json r \<and>
       (\<exists>members kvs rest m. body r = Some (JObj members)
            \<and> map_of members ''errors'' = Some (JArr (JObj kvs # rest))
            \<and> map_of kvs ''code'' = Some (JStr ''DS04'')
            \<and> map_of kvs ''message'' = Some (JStr m)
            \<and> prefix ''No 'Read metadata' permission'' m))"
  (is "?L \<longleftrightarrow> ?R")
proof
  assume L: ?L
  then have s: "status_code r = 401"
    and h: "(case map_of (headers r) ''Content-Type'' of None \<Rightarrow> False
             | Some ct \<Rightarrow> sublist ''application/json'' ct)"
    unfolding invalid_session_response_def by blast+
  from h have j: "is_json r"
    unfolding is_json_def by (cases "map_of (headers r) ''Content-Type''") auto
  from L have "\<exists>members kvs rest m. body r = Some (JObj members)
            \<and> map_of members ''errors'' = Some (JArr (JObj kvs # rest))
            \<and> map_of kvs ''code'' = Some (JStr ''DS04'')
            \<and> map_of kvs ''message'' = Some (JStr m)
            \<and> prefix ''No 'Read metadata' permission'' m"
    unfolding invalid_session_response_def by (intro invalid_session_body) blast
  with s j show ?R by simp
next
  assume ?R
  then obtain members kvs rest m where
    "status_code r = 401" "is_json r" "body r = Some (JObj members)"
    "map_of members ''errors'' = Some (JArr (JObj kvs # rest))"
    "map_of kvs ''code'' = Some (JStr ''DS04'')"
    "map_of kvs ''message'' = Some (JStr m)"
    "prefix ''No 'Read metadata' permission'' m" by blast
  then show ?L
    unfolding invalid_session_response_def is_json_def
    by (simp split: option.splits)
qed

lemma token_is_valid_False:
  "token_is_valid r = Inr False \<longleftrightarrow> invalid_session_response r"
proof -
  have "(\<exists>j errs err. body r = Some j \<and> py_getitem j ''errors'' = Inr errs \<and> py_item0 errs = Inr err
            \<and> is_no_read_metadata err = Inr True) \<longleftrightarrow>
        (\<exists>members kvs rest m. body r = Some (JObj members)
            \<and> map_of members ''errors'' = Some (JArr (JObj kvs # rest))
            \<and> map_of kvs ''code'' = Some (JStr ''DS04'')
            \<and> map_of kvs ''message'' = Some (JStr m)
            \<and> prefix ''No 'Read metadata' permission'' m)" (is "?A \<longleftrightarrow> ?B")
  proof
    assume ?A
    then obtain j errs err where a: "body r = Some j" "py_getitem j ''errors'' = Inr errs"
      "py_item0 errs = Inr err" "is_no_read_metadata err = Inr True" by blast
    from a(4) obtain kvs m where k: "err = JObj kvs" "map_of kvs ''code'' = Some (JStr ''DS04'')"
      "map_of kvs ''message'' = Some (JStr m)" "prefix ''No 'Read metadata' permission'' m"
      unfolding is_no_read_metadata_True by blast
    from a(2) obtain members where m: "j = JObj members" "map_of members ''errors'' = Some errs"
      unfolding py_getitem_Inr by blast
    from a(3) k(1) obtain rest where "errs = JArr (JObj kvs # rest)"
      by (auto simp: py_item0_JObj)
    with a(1) k m show ?B by blast
  next
    assume ?B
    then obtain members kvs rest m where b: "body r = Some (JObj members)"
      "map_of members ''errors'' = Some (JArr (JObj kvs # rest))"
      "map_of kvs ''code'' = Some (JStr ''DS04'')"
      "map_of kvs ''message'' = Some (JStr m)"
      "prefix ''No 'Read metadata' permission'' m" by blast
    have "is_no_read_metadata (JObj kvs) = Inr True"
      unfolding is_no_read_metadata_True using b(3,4,5) by blast
    moreover have "py_getitem (JObj members) ''errors'' = Inr (JArr (JObj kvs # rest))"
      using b(2) by simp
    moreover have "py_item0 (JArr (JObj kvs # rest)) = Inr (JObj kvs)" by simp
    ultimately show ?A using b(1) by blast
  qed
  then show ?thesis
    unfolding token_is_valid_cases invalid_session_response_iff by simp
qed


lemma handle_request_on_response:
  assumes "func w = (Inr r, w1)"
  shows "handle_request (Suc d) login func w =
     (case raise_for_status r of
        Inr _ \<Rightarrow> (Inr r, w1)
      | Inl e \<Rightarrow>
          (case token_is_valid r of
             Inl e' \<Rightarrow> (Inl e', w1)
           | Inr True \<Rightarrow> (Inl (decode_error r (http_error_msg r)), w1)
           | Inr False \<Rightarrow>
               (case login w1 of
                  (Inl e', w2) \<Rightarrow> (Inl e', w2)
                | (Inr _, w2) \<Rightarrow>
                    (case handle_request d login func w2 of
                       (Inl e', w3) \<Rightarrow> (Inl e', w3)
                     | (Inr _, w3) \<Rightarrow> (Inl (decode_error r (http_error_msg r)), w3)))))"
  using assms by (simp add: raise_for_status_def)

declare handle_request.simps(2) [simp del]

lemma invalid_session_raises:
  "invalid_session_response r \<Longrightarrow> raise_for_status r = Inl (HTTPError (http_error_msg r))"
  by (simp add: invalid_session_response_def raise_for_status_def)

lemma handle_request_no_login:
  assumes "func w = (Inr r, w1)" and "\<not> invalid_session_response r"
  shows "handle_request (Suc d) login func w = handle_request (Suc d) login' func w
         \<and> snd (handle_request (Suc d) login func w) = w1"
proof -
  from assms(2) have nv: "token_is_valid r \<noteq> Inr False"
    by (simp add: token_is_valid_False)
  have "\<And>lg. handle_request (Suc d) lg func w =
     (case raise_for_status r of
        Inr _ \<Rightarrow> (Inr r, w1)
      | Inl e \<Rightarrow>
          (case token_is_valid r of
             Inl e' \<Rightarrow> (Inl e', w1)
           | Inr b \<Rightarrow> (Inl (decode_error r (http_error_msg r)), w1)))"
    using nv by (simp add: handle_request_on_response[where func=func and w=w, OF assms(1)] split: sum.splits bool.splits)
  then show ?thesis by (simp split: sum.splits)
qed

lemma handle_request_retry:
  assumes "func w = (Inr r, w1)" and "invalid_session_response r" and "login w1 = (Inr (), w2)"
  shows "handle_request (Suc d) login func w =
           (case handle_request d login func w2 of
              (Inl e, w3) \<Rightarrow> (Inl e, w3)
            | (Inr _, w3) \<Rightarrow> (Inl (decode_error r (http_error_msg r)), w3))"
  using assms(2,3)
  by (simp add: handle_request_on_response[where func=func and w=w, OF assms(1)] invalid_session_raises
      token_is_valid_False[symmetric])

lemma handle_request_one_retry:
  assumes "func w = (Inr r, w1)" and "invalid_session_response r" and "login w1 = (Inr (), w2)"
  shows "snd (handle_request (Suc d) login func w) = snd (handle_request d login func w2)
       \<and> (\<forall>r2 w3. func w2 = (Inr r2, w3) \<longrightarrow> \<not> invalid_session_response r2 \<longrightarrow>
             snd (handle_request (Suc (Suc d)) login func w) = w3)"
proof -
  have a: "\<And>k. snd (handle_request (Suc k) login func w) = snd (handle_request k login func w2)"
    by (simp add: handle_request_retry[where func=func and w=w and login=login, OF assms] split: prod.splits sum.splits)
  show ?thesis
  proof (intro conjI allI impI)
    show "snd (handle_request (Suc d) login func w) = snd (handle_request d login func w2)"
      by (rule a)
  next
    fix r2 w3 assume "func w2 = (Inr r2, w3)" "\<not> invalid_session_response r2"
    from handle_request_no_login[where func=func and w=w2, OF this, of d login login]
    show "snd (handle_request (Suc (Suc d)) login func w) = w3"
      by (simp only: a)
  qed
qed

lemma handle_request_never_returns_after_invalid_session:
  assumes "func w = (Inr r, w1)" and "invalid_session_response r"
  shows "\<exists>e. fst (handle_request d login func w) = Inl e"
proof (cases d)
  case 0 then show ?thesis by simp
next
  case (Suc k)
  then show ?thesis using assms(2)
    by (simp add: handle_request_on_response[where func=func and w=w, OF assms(1)] invalid_session_raises
      token_is_valid_False[symmetric] split: prod.splits sum.splits)
qed

subsection \<open>Resource operations\<close>

lemma get_success:
  assumes "recursion_limit E = Suc d"
    and "remote E (sent w @ [get_request address w]) = Answer r"
    and "status_code r < 400"
  shows "get E address w = (Inr r, w\<lparr>sent := sent w @ [get_request address w]\<rparr>)"
  using assms by (simp add: get_def http_send_def raise_for_status_def handle_request.simps(2))

text \<open>
  C4. For every resource type and identifier, \<open>resource_exists\<close> returns true exactly
  when the total count the backing store reports for the query \<open>id==identifier\<close> under
  the type's backend entity identifier is greater than 0.
\<close>

theorem resource_exists_iff_total_positive:
  assumes "0 < recursion_limit E"
    and "remote E (sent w @ [get_request (api E ''rest2'' @ get_entity_id R @ ''?q=id=='' @ rid) w])
           = Answer r"
    and "status_code r < 400"
    and "body r = Some (JObj members)"
    and "map_of members ''total'' = Some (JNum n)"
  shows "fst (resource_exists E rid R w) = Inr (0 < n)"
proof -
  from assms(1) obtain d where d: "recursion_limit E = Suc d"
    by (cases "recursion_limit E") auto
  have g: "get E (api E ''rest2'' @ get_entity_id R @ ''?q=id=='' @ rid) w
             = (Inr r, w\<lparr>sent := sent w @
                  [get_request (api E ''rest2'' @ get_entity_id R @ ''?q=id=='' @ rid) w]\<rparr>)"
    by (rule get_success[OF d assms(2,3)])
  show ?thesis
    unfolding resource_exists_def g using assms(4,5) by (simp add: json_of_def)
qed

theorem resource_exists_iff_total_positive_witness:
  "fst (resource_exists (mock_runtime 0 (total_response 3)) ''base'' PACKAGE fresh_world) = Inr True
   \<and> fst (resource_exists (mock_runtime 0 (total_response 0)) ''base'' PACKAGE fresh_world) = Inr False"
proof -
  have a: "fst (resource_exists (mock_runtime 0 (total_response n)) ''base'' PACKAGE fresh_world)
             = Inr (0 < n)" for n
    by (rule resource_exists_iff_total_positive
          [where r = "total_response n" and members = "[(''items'', JArr []), (''total'', JNum n)]"])
       (simp_all add: mock_runtime_def mock_server_def mock_api_def get_request_def
          total_response_def fresh_world_def count_to_def)
  from a[of 3] a[of 0] show ?thesis by simp
qed

text \<open>
  C5. When \<open>resource_exists\<close> returns, \<open>ensure_resource_exists\<close> raises exactly when the
  answer is false; the error is an \<open>McmdError\<close> whose message holds the label of the
  resource type and the identifier; when the answer is true it returns without raising.
\<close>

theorem ensure_resource_exists_iff:
  assumes "resource_exists E rid R w = (Inr found, w1)"
  shows "((\<exists>e. fst (ensure_resource_exists E rid R w) = Inl e) \<longleftrightarrow> \<not> found)
       \<and> (\<not> found \<longrightarrow>
            (\<exists>msg. ensure_resource_exists E rid R w = (Inl (McmdError (JStr msg)), w1)
                 \<and> msg = ''No '' @ get_label R @ '' found with id '' @ rid
                 \<and> sublist (get_label R) msg \<and> sublist rid msg))
       \<and> (found \<longrightarrow> ensure_resource_exists E rid R w = (Inr (), w1))"
proof -
  have "sublist rid ((''No '' @ get_label R @ '' found with id '') @ rid)"
    by (rule sublist_append_leftI)
  moreover have "sublist (get_label R) (''No '' @ get_label R @ '' found with id '' @ rid)"
    by (rule sublist_appendI)
  ultimately show ?thesis
    using assms by (simp add: ensure_resource_exists_def)
qed

theorem ensure_resource_exists_iff_witness:
  "resource_exists (mock_runtime 0 (total_response 0)) ''base'' PACKAGE fresh_world
     = (Inr False, \<lparr>token = [], sent = [get_request package_query fresh_world]\<rparr>)
   \<and> ensure_resource_exists (mock_runtime 0 (total_response 0)) ''base'' PACKAGE fresh_world
     = (Inl (McmdError (JStr ''No Package found with id base'')),
        \<lparr>token = [], sent = [get_request package_query fresh_world]\<rparr>)"
proof -
  have r: "resource_exists (mock_runtime 0 (total_response 0)) ''base'' PACKAGE fresh_world
     = (Inr False, \<lparr>token = [], sent = [get_request package_query fresh_world]\<rparr>)"
    by (simp add: resource_exists_def get_def mock_runtime_def eval_nat_numeral
          handle_request.simps(2) http_send_def mock_server_def mock_api_def get_request_def
          get_default_headers_def total_response_def fresh_world_def count_to_def
          raise_for_status_def json_of_def package_query_def)
  from ensure_resource_exists_iff[OF r] show ?thesis using r by simp
qed

subsection \<open>Granting permissions\<close>

lemma handle_request_success:
  assumes "func w = (Inr r, w1)" and "status_code r < 400"
  shows "handle_request (Suc d) login func w = (Inr r, w1)"
  using assms(2)
  by (simp add: handle_request_on_response[where func = func and w = w, OF assms(1)]
        raise_for_status_def)

lemma grant_func_posts_form:
  "grant_func E ROLE name rt ident perm w
     = http_send (remote E)
         \<lparr>verb = ''POST'', target = api E ''perm'' @ get_resource_name rt @ ''/role'',
          req_headers =
            [(''Content-Type'', ''application/x-www-form-urlencoded; charset=UTF-8''),
             (''x-molgenis-token'', token w)],
          payload = FormData [(''radio-'' @ ident, perm), (''rolename'', str_upper E name)]\<rparr> w"
  "grant_func E USER name rt ident perm w
     = http_send (remote E)
         \<lparr>verb = ''POST'', target = api E ''perm'' @ get_resource_name rt @ ''/user'',
          req_headers =
            [(''Content-Type'', ''application/x-www-form-urlencoded; charset=UTF-8''),
             (''x-molgenis-token'', token w)],
          payload = FormData [(''radio-'' @ ident, perm), (''username'', name)]\<rparr> w"
  by (simp_all add: grant_func_def grant_data_def)

text \<open>
  C6. Through the decorated \<open>grant\<close>, when the server answers the post with a success:
  for a ROLE principal the one request that was sent carries the form whose \<open>rolename\<close>
  field is the principal name as \<^verbatim>\<open>str.upper()\<close> returns it, and for a USER principal
  the form whose \<open>username\<close> field is the principal name itself, case unchanged; the
  other field of the form is \<open>radio-\<close> and the identifier, holding the permission. For an
  ASCII name the upper-cased name is the name with a to z replaced by A to Z, so that
  \<open>curator\<close> becomes \<open>CURATOR\<close>.
\<close>

theorem grant_principal_field:
  assumes "0 < recursion_limit E"
    and "\<forall>s. is_ascii s \<longrightarrow> str_upper E s = upper s"
  shows
    "(\<forall>r. remote E (sent w @
             [\<lparr>verb = ''POST'', target = api E ''perm'' @ get_resource_name rt @ ''/role'',
               req_headers =
                 [(''Content-Type'', ''application/x-www-form-urlencoded; charset=UTF-8''),
                  (''x-molgenis-token'', token w)],
               payload = FormData [(''radio-'' @ ident, perm),
                                   (''rolename'', str_upper E name)]\<rparr>]) = Answer r
          \<longrightarrow> status_code r < 400
          \<longrightarrow> grant E ROLE name rt ident perm w
              = (Inr r, w\<lparr>sent := sent w @
                   [\<lparr>verb = ''POST'',
                     target = api E ''perm'' @ get_resource_name rt @ ''/role'',
                     req_headers =
                       [(''Content-Type'', ''application/x-www-form-urlencoded; charset=UTF-8''),
                        (''x-molgenis-token'', token w)],
                     payload = FormData [(''radio-'' @ ident, perm),
                                         (''rolename'', str_upper E name)]\<rparr>]\<rparr>))
     \<and> (\<forall>r. remote E (sent w @
             [\<lparr>verb = ''POST'', target = api E ''perm'' @ get_resource_name rt @ ''/user'',
               req_headers =
                 [(''Content-Type'', ''application/x-www-form-urlencoded; charset=UTF-8''),
                  (''x-molgenis-token'', token w)],
               payload = FormData [(''radio-'' @ ident, perm), (''username'', name)]\<rparr>])
            = Answer r
          \<longrightarrow> status_code r < 400
          \<longrightarrow> grant E USER name rt ident perm w
              = (Inr r, w\<lparr>sent := sent w @
                   [\<lparr>verb = ''POST'',
                     target = api E ''perm'' @ get_resource_name rt @ ''/user'',
                     req_headers =
                       [(''Content-Type'', ''application/x-www-form-urlencoded; charset=UTF-8''),
                        (''x-molgenis-token'', token w)],
                     payload = FormData [(''radio-'' @ ident, perm), (''username'', name)]\<rparr>]\<rparr>))
     \<and> (is_ascii name \<longrightarrow> str_upper E name = upper name)
     \<and> str_upper E ''curator'' = ''CURATOR''"
proof -
  from assms(1) obtain d where d: "recursion_limit E = Suc d"
    by (cases "recursion_limit E") auto
  have ok: "grant E pt name rt ident perm w = (Inr r, w\<lparr>sent := sent w @ [rq]\<rparr>)"
    if "grant_func E pt name rt ident perm w = http_send (remote E) rq w"
      and "remote E (sent w @ [rq]) = Answer r" and "status_code r < 400" for pt rq r
  proof -
    from that(1,2) have "grant_func E pt name rt ident perm w
        = (Inr r, w\<lparr>sent := sent w @ [rq]\<rparr>)"
      by (simp add: http_send_def)
    from handle_request_success[where func = "grant_func E pt name rt ident perm" and w = w,
        OF this that(3)]
    show ?thesis by (simp add: grant_def d)
  qed
  have "is_ascii ''curator''" by (simp add: is_ascii_def)
  with assms(2) have "str_upper E ''curator'' = upper ''curator''" by blast
  moreover have "upper ''curator'' = ''CURATOR''"
    by (simp add: upper_def upper_char_def)
  ultimately have cur: "str_upper E ''curator'' = ''CURATOR''" by simp
  from assms(2) have asc: "is_ascii name \<longrightarrow> str_upper E name = upper name" by blast
  show ?thesis
    using ok[OF grant_func_posts_form(1)] ok[OF grant_func_posts_form(2)] cur asc
    by blast
qed

theorem grant_principal_field_witness:
  "grant (mock_runtime 0 (total_response 0)) ROLE ''curator'' PACKAGE ''base'' ''write'' fresh_world
     = (Inr (total_response 0),
        \<lparr>token = [], sent =
           [\<lparr>verb = ''POST'', target = ''http://localhost/permission/package/role'',
             req_headers =
               [(''Content-Type'', ''application/x-www-form-urlencoded; charset=UTF-8''),
                (''x-molgenis-token'', [])],
             payload = FormData [(''radio-base'', ''write''), (''rolename'', ''CURATOR'')]\<rparr>]\<rparr>)
   \<and> grant (mock_runtime 0 (total_response 0)) USER ''curator'' PACKAGE ''base'' ''write'' fresh_world
     = (Inr (total_response 0),
        \<lparr>token = [], sent =
           [\<lparr>verb = ''POST'', target = ''http://localhost/permission/package/user'',
             req_headers =
               [(''Content-Type'', ''application/x-www-form-urlencoded; charset=UTF-8''),
                (''x-molgenis-token'', [])],
             payload = FormData [(''radio-base'', ''write''), (''username'', ''curator'')]\<rparr>]\<rparr>)"
proof -
  let ?E = "mock_runtime 0 (total_response 0)"
  have l: "0 < recursion_limit ?E"
    by (simp add: mock_runtime_def)
  have u: "\<forall>s. is_ascii s \<longrightarrow> str_upper ?E s = upper s"
    by (simp add: mock_runtime_def)
  note t = grant_principal_field[where E = ?E and w = fresh_world and name = "''curator''"
      and rt = PACKAGE and ident = "''base''" and perm = "''write''", OF l u]
  have s: "status_code (total_response 0) < 400"
    by (simp add: total_response_def)
  have a: "remote ?E (sent fresh_world @
             [\<lparr>verb = ''POST'', target = api ?E ''perm'' @ get_resource_name PACKAGE @ ''/role'',
               req_headers =
                 [(''Content-Type'', ''application/x-www-form-urlencoded; charset=UTF-8''),
                  (''x-molgenis-token'', token fresh_world)],
               payload = FormData [(''radio-'' @ ''base'', ''write''),
                                   (''rolename'', str_upper ?E ''curator'')]\<rparr>])
           = Answer (total_response 0)"
    by code_simp
  have b: "remote ?E (sent fresh_world @
             [\<lparr>verb = ''POST'', target = api ?E ''perm'' @ get_resource_name PACKAGE @ ''/user'',
               req_headers =
                 [(''Content-Type'', ''application/x-www-form-urlencoded; charset=UTF-8''),
                  (''x-molgenis-token'', token fresh_world)],
               payload = FormData [(''radio-'' @ ''base'', ''write''), (''username'', ''curator'')]\<rparr>])
           = Answer (total_response 0)"
    by code_simp
  from t have cur: "str_upper ?E ''curator'' = ''CURATOR''" by blast
  have perm: "api ?E ''perm'' = ''http://localhost/permission/''"
    by (simp add: mock_runtime_def mock_api_def)
  from t a s have "grant ?E ROLE ''curator'' PACKAGE ''base'' ''write'' fresh_world
      = (Inr (total_response 0), fresh_world\<lparr>sent := sent fresh_world @
           [\<lparr>verb = ''POST'', target = api ?E ''perm'' @ get_resource_name PACKAGE @ ''/role'',
             req_headers =
               [(''Content-Type'', ''application/x-www-form-urlencoded; charset=UTF-8''),
                (''x-molgenis-token'', token fresh_world)],
             payload = FormData [(''radio-'' @ ''base'', ''write''),
                                 (''rolename'', str_upper ?E ''curator'')]\<rparr>]\<rparr>)"
    by blast
  then have 1: "grant ?E ROLE ''curator'' PACKAGE ''base'' ''write'' fresh_world
     = (Inr (total_response 0),
        \<lparr>token = [], sent =
           [\<lparr>verb = ''POST'', target = ''http://localhost/permission/package/role'',
             req_headers =
               [(''Content-Type'', ''application/x-www-form-urlencoded; charset=UTF-8''),
                (''x-molgenis-token'', [])],
             payload = FormData [(''radio-base'', ''write''), (''rolename'', ''CURATOR'')]\<rparr>]\<rparr>)"
    by (simp add: cur perm fresh_world_def)
  from t b s have "grant ?E USER ''curator'' PACKAGE ''base'' ''write'' fresh_world
      = (Inr (total_response 0), fresh_world\<lparr>sent := sent fresh_world @
           [\<lparr>verb = ''POST'', target = api ?E ''perm'' @ get_resource_name PACKAGE @ ''/user'',
             req_headers =
               [(''Content-Type'', ''application/x-www-form-urlencoded; charset=UTF-8''),
                (''x-molgenis-token'', token fresh_world)],
             payload = FormData [(''radio-'' @ ''base'', ''write''), (''username'', ''curator'')]\<rparr>]\<rparr>)"
    by blast
  then have 2: "grant ?E USER ''curator'' PACKAGE ''base'' ''write'' fresh_world
     = (Inr (total_response 0),
        \<lparr>token = [], sent =
           [\<lparr>verb = ''POST'', target = ''http://localhost/permission/package/user'',
             req_headers =
               [(''Content-Type'', ''application/x-www-form-urlencoded; charset=UTF-8''),
                (''x-molgenis-token'', [])],
             payload = FormData [(''radio-base'', ''write''), (''username'', ''curator'')]\<rparr>]\<rparr>)"
    by (simp add: perm fresh_world_def)
  from 1 2 show ?thesis by blast
qed

text \<open>
  C7. With a principal type that is neither USER nor ROLE, \<open>grant\<close> raises before
  anything is sent: the state is unchanged, no request was issued and the login was not
  called. The error is the \<open>McmdError\<close> of the function, unless the interpreter cannot
  even enter the wrapper.
\<close>

theorem grant_unrecognized_principal_type:
  "grant E (Unrecognized s) name rt ident perm w
     = (Inl (if recursion_limit E = 0 then RecursionError
             else McmdError (JStr (''Unknown principal type: '' @ s))), w)"
  by (cases "recursion_limit E")
     (simp_all add: grant_def grant_func_def grant_data_def handle_request.simps(2))

subsection \<open>The wrapper: login, retry and error decoding\<close>

lemma handle_request_raises:
  assumes "func w = (Inl e, w1)"
  shows "snd (handle_request (Suc d) login func w) = w1"
  using assms by (cases e) (simp_all add: handle_request.simps(2))

lemma mock_get:
  "get (mock_runtime k final) package_query w
     = handle_request 10 (auth_login (mock_runtime k final)) (mock_call k final) w"
  by (simp add: get_def mock_runtime_def mock_call_def[abs_def])

text \<open>
  C10. A response that does not meet all four conditions (status code 401, a
  Content-Type header containing \<open>application/json\<close>, a first structured error with the
  code \<open>DS04\<close>, and a message of that error starting with \<open>No 'Read metadata'
  permission\<close>) never triggers a login: \<open>token_is_valid\<close> does not answer false, the
  outcome of the wrapper is the same for every login function, and the state is the one the
  call itself left.
\<close>

theorem relogin_only_on_invalid_session:
  assumes "func w = (Inr r, w1)" and "\<not> invalid_session_response r"
  shows "token_is_valid r \<noteq> Inr False
       \<and> handle_request (Suc d) login func w = handle_request (Suc d) login' func w
       \<and> snd (handle_request (Suc d) login func w) = w1"
proof -
  note h = handle_request_no_login[where func = func and w = w, OF assms, of d login login']
  from assms(2) have "token_is_valid r \<noteq> Inr False"
    by (simp add: token_is_valid_False)
  with h show ?thesis by blast
qed

theorem relogin_only_on_invalid_session_witness:
  "mock_call 0 two_errors_response fresh_world
     = (Inr two_errors_response, \<lparr>token = [], sent = [first_call]\<rparr>)
   \<and> \<not> invalid_session_response two_errors_response
   \<and> snd (get (mock_runtime 0 two_errors_response) package_query fresh_world)
     = \<lparr>token = [], sent = [first_call]\<rparr>"
proof -
  have f: "mock_call 0 two_errors_response fresh_world
     = (Inr two_errors_response, \<lparr>token = [], sent = [first_call]\<rparr>)"
    by code_simp
  have n: "\<not> invalid_session_response two_errors_response"
    by code_simp
  from relogin_only_on_invalid_session
         [where func = "mock_call 0 two_errors_response" and w = fresh_world, OF f n, of 9]
  have "snd (handle_request 10 (auth_login (mock_runtime 0 two_errors_response))
               (mock_call 0 two_errors_response) fresh_world)
          = \<lparr>token = [], sent = [first_call]\<rparr>"
    by simp
  with f n show ?thesis by (simp only: mock_get simp_thms)
qed

text \<open>
  C1 does not hold as stated: against a backend that answers the first two calls with
  the invalid-session error, one call of \<open>get\<close> logs in twice and issues the request
  three times.
\<close>

theorem single_relogin_counterexample:
  "count_to (mock_api ''login'')
     (sent (snd (get (mock_runtime 2 (total_response 1)) package_query fresh_world))) = 2
   \<and> count_to package_query
     (sent (snd (get (mock_runtime 2 (total_response 1)) package_query fresh_world))) = 3"
  by code_simp

text \<open>
  C1, amended. When the response of the call is an invalid-session response and the
  login returns, the wrapper retries by calling itself once and changes nothing after
  that nested call. So the whole call consists of the call, one login and one retry
  whenever the retried call does not end with an invalid-session response again; when
  it does, the nested call logs in and retries in the same way.
\<close>

theorem retry_once_unless_session_invalid_again:
  assumes "func w = (Inr r, w1)" and "invalid_session_response r" and "login w1 = (Inr (), w2)"
  shows "snd (handle_request (Suc d) login func w) = snd (handle_request d login func w2)
       \<and> (\<forall>out w3. func w2 = (out, w3) \<longrightarrow> (\<forall>r2. out = Inr r2 \<longrightarrow> \<not> invalid_session_response r2)
             \<longrightarrow> snd (handle_request (Suc (Suc d)) login func w) = w3)"
proof (intro conjI allI impI)
  note one = handle_request_one_retry[where func = func and w = w and login = login, OF assms]
  show "snd (handle_request (Suc d) login func w) = snd (handle_request d login func w2)"
    using one by blast
  fix out w3
  assume f2: "func w2 = (out, w3)" and ok: "\<forall>r2. out = Inr r2 \<longrightarrow> \<not> invalid_session_response r2"
  have step: "snd (handle_request (Suc (Suc d)) login func w)
                = snd (handle_request (Suc d) login func w2)"
    using handle_request_one_retry
            [where func = func and w = w and login = login and d = "Suc d", OF assms]
    by blast
  show "snd (handle_request (Suc (Suc d)) login func w) = w3"
  proof (cases out)
    case (Inl e)
    with f2 have "snd (handle_request (Suc d) login func w2) = w3"
      by (simp add: handle_request_raises)
    with step show ?thesis by simp
  next
    case (Inr r2)
    with f2 ok have "func w2 = (Inr r2, w3)" "\<not> invalid_session_response r2" by simp_all
    from handle_request_no_login[where func = func and w = w2, OF this, of d login login]
    show ?thesis using step by simp
  qed
qed

theorem retry_once_unless_session_invalid_again_witness:
  "mock_call 1 (total_response 1) fresh_world
     = (Inr expired_response, \<lparr>token = [], sent = [first_call]\<rparr>)
   \<and> invalid_session_response expired_response
   \<and> auth_login (mock_runtime 1 (total_response 1)) \<lparr>token = [], sent = [first_call]\<rparr>
     = (Inr (), \<lparr>token = ''fresh'', sent = [first_call, login_request]\<rparr>)
   \<and> mock_call 1 (total_response 1) \<lparr>token = ''fresh'', sent = [first_call, login_request]\<rparr>
     = (Inr (total_response 1),
        \<lparr>token = ''fresh'', sent = [first_call, login_request, retried_call]\<rparr>)
   \<and> \<not> invalid_session_response (total_response 1)
   \<and> snd (get (mock_runtime 1 (total_response 1)) package_query fresh_world)
     = \<lparr>token = ''fresh'', sent = [first_call, login_request, retried_call]\<rparr>"
proof -
  have c1: "mock_call 1 (total_response 1) fresh_world
     = (Inr expired_response, \<lparr>token = [], sent = [first_call]\<rparr>)"
    by code_simp
  have i1: "invalid_session_response expired_response"
    by code_simp
  have l1: "auth_login (mock_runtime 1 (total_response 1)) \<lparr>token = [], sent = [first_call]\<rparr>
     = (Inr (), \<lparr>token = ''fresh'', sent = [first_call, login_request]\<rparr>)"
    by code_simp
  have c2: "mock_call 1 (total_response 1) \<lparr>token = ''fresh'', sent = [first_call, login_request]\<rparr>
     = (Inr (total_response 1),
        \<lparr>token = ''fresh'', sent = [first_call, login_request, retried_call]\<rparr>)"
    by code_simp
  have i2: "\<not> invalid_session_response (total_response 1)"
    by code_simp
  from retry_once_unless_session_invalid_again
         [where func = "mock_call 1 (total_response 1)" and w = fresh_world
            and login = "auth_login (mock_runtime 1 (total_response 1))" and d = 8,
          OF c1 i1 l1]
       c2 i2
  have "snd (handle_request 10 (auth_login (mock_runtime 1 (total_response 1)))
               (mock_call 1 (total_response 1)) fresh_world)
          = \<lparr>token = ''fresh'', sent = [first_call, login_request, retried_call]\<rparr>"
    by simp
  with c1 i1 l1 c2 i2 show ?thesis by (simp only: mock_get simp_thms)
qed

text \<open>
  C2, evaluated: the first call meets an invalid session, the login succeeds and the
  retried call is answered with status 200; the wrapper still raises the error of the
  first response instead of returning the retried call's response.
\<close>

theorem retried_response_is_dropped:
  "get (mock_runtime 1 (total_response 1)) package_query fresh_world
     = (Inl (McmdError (JStr ''No 'Read metadata' permission on entity type Package'')),
        \<lparr>token = ''fresh'', sent = [first_call, login_request, retried_call]\<rparr>)
   \<and> mock_server 1 (total_response 1) [first_call, login_request, retried_call]
     = Answer (total_response 1)
   \<and> raise_for_status (total_response 1) = Inr ()"
  by code_simp

text \<open>
  C3, evaluated: an error response whose payload lists two messages makes the wrapper
  raise an \<open>McmdError\<close> that carries the first message only.
\<close>

theorem only_first_message_is_raised:
  "handle_json_error
     (JObj [(''errors'', JArr [JObj [(''message'', JStr ''first problem'')],
                               JObj [(''message'', JStr ''second problem'')]])])
     = Inl (McmdError (JStr ''first problem''))
   \<and> fst (get (mock_runtime 0 two_errors_response) package_query fresh_world)
     = Inl (McmdError (JStr ''first problem''))"
  by code_simp

lemma handle_json_error_first:
  assumes "map_of members ''errors'' = Some (JArr (JObj err # rest))"
    and "map_of err ''message'' = Some m"
  shows "handle_json_error (JObj members) = Inl (McmdError m)"
  using assms by (simp add: handle_json_error_def)

subsection \<open>The script runners\<close>

lemma mcmd_run_lines_append:
  "mcmd_run_lines sh x (xs @ ys) w =
     (case mcmd_run_lines sh x xs w of
        (Inl e, w1) \<Rightarrow> (Inl e, w1)
      | (Inr _, w1) \<Rightarrow> mcmd_run_lines sh x ys w1)"
  by (induction xs arbitrary: w) (simp_all add: Let_def split: sum.splits prod.splits)

lemma mdev_run_lines_append:
  "mdev_run_lines sh x (xs @ ys) w =
     (case mdev_run_lines sh x xs w of
        (Inl e, w1) \<Rightarrow> (Inl e, w1)
      | (Inr _, w1) \<Rightarrow> mdev_run_lines sh x ys w1)"
proof (induction xs arbitrary: w)
  case Nil
  show ?case by simp
next
  case (Cons line xs)
  then show ?case
    by (cases x) (simp_all add: Let_def split: sum.splits prod.splits)
qed

text \<open>
  C8 does not hold as stated: the runner of mdev, started with \<open>--ignore-errors\<close> on a
  script whose first line invokes the run command, logs the error, skips the line,
  carries out the next line and ends without a failure.
\<close>

theorem nested_run_ignored_counterexample:
  "mdev_run (recording_shell [] nested_script)
      \<lparr>script = ''demo.script'', ignore_errors = True\<rparr> blank_console
     = (Inr (),
        \<lparr>errors_logged = [''Can't use the run command in a script: run other.script''],
         history = [''add user bob''], attempted = [''add'']\<rparr>)"
  by code_simp

text \<open>
  C8, amended. When the lines before it have run to completion, a line that parses to
  the run command makes the runner of mcmd raise an \<open>McmdError\<close> at that line whatever
  the flag, with no later line carried out. The runner of mdev logs the error and, without
  \<open>--ignore-errors\<close>, exits with status 1 at that line; with \<open>--ignore-errors\<close> it skips
  the line and continues with the next one.
\<close>

theorem nested_run_line:
  assumes "parse_line sh (split_space l) = Inr a" and "command a = ''run''"
  shows "(mcmd_run_lines sh exit_on_error pre w = (Inr (), w1) \<longrightarrow>
            mcmd_run_lines sh exit_on_error (pre @ l # post) w
              = (Inl (McmdError (JStr (''Can't use the run command in a script: '' @ l))), w1))
       \<and> (mdev_run_lines sh exit_on_error pre w = (Inr (), w1) \<longrightarrow>
            mdev_run_lines sh exit_on_error (pre @ l # post) w
              = (if exit_on_error
                 then (Inl (SystemExit 1),
                       log_error sh (''Can't use the run command in a script: '' @ l) w1)
                 else mdev_run_lines sh exit_on_error post
                       (log_error sh (''Can't use the run command in a script: '' @ l) w1)))"
  using assms by (simp add: mcmd_run_lines_append mdev_run_lines_append Let_def)

theorem nested_run_line_witness:
  "mcmd_run_lines (recording_shell [] nested_script) False
      [''add user bob'', ''run other.script'', ''make bob admin''] blank_console
     = (Inl (McmdError (JStr ''Can't use the run command in a script: run other.script'')),
        \<lparr>errors_logged = [], history = [], attempted = [''add'']\<rparr>)
   \<and> mcmd_run_lines (recording_shell [] nested_script) True
      [''add user bob'', ''run other.script'', ''make bob admin''] blank_console
     = (Inl (McmdError (JStr ''Can't use the run command in a script: run other.script'')),
        \<lparr>errors_logged = [], history = [], attempted = [''add'']\<rparr>)
   \<and> mdev_run_lines (recording_shell [] nested_script) True
      [''add user bob'', ''run other.script'', ''make bob admin''] blank_console
     = (Inl (SystemExit 1),
        \<lparr>errors_logged = [''Can't use the run command in a script: run other.script''],
         history = [''add user bob''], attempted = [''add'']\<rparr>)"
proof -
  let ?sh = "recording_shell [] nested_script"
  have p: "parse_line ?sh (split_space ''run other.script'')
             = Inr \<lparr>command = ''run'', attrs = []\<rparr>"
    by code_simp
  have c: "command \<lparr>command = ''run'', attrs = []\<rparr> = ''run''"
    by simp
  have m: "mcmd_run_lines ?sh x [''add user bob''] blank_console
             = (Inr (), \<lparr>errors_logged = [], history = [], attempted = [''add'']\<rparr>)" for x
    by (cases x) code_simp+
  have d: "mdev_run_lines ?sh True [''add user bob''] blank_console
             = (Inr (), \<lparr>errors_logged = [], history = [''add user bob''],
                         attempted = [''add'']\<rparr>)"
    by code_simp
  have l: "log_error ?sh ''Can't use the run command in a script: run other.script''
             \<lparr>errors_logged = [], history = [''add user bob''], attempted = [''add'']\<rparr>
           = \<lparr>errors_logged = [''Can't use the run command in a script: run other.script''],
              history = [''add user bob''], attempted = [''add'']\<rparr>"
    by code_simp
  note n = nested_run_line[where sh = ?sh and pre = "[''add user bob'']"
      and post = "[''make bob admin'']" and w = blank_console, OF p c]
  from n[of False "\<lparr>errors_logged = [], history = [], attempted = [''add'']\<rparr>"] m[of False]
  have 1: "mcmd_run_lines ?sh False
      [''add user bob'', ''run other.script'', ''make bob admin''] blank_console
     = (Inl (McmdError (JStr ''Can't use the run command in a script: run other.script'')),
        \<lparr>errors_logged = [], history = [], attempted = [''add'']\<rparr>)"
    by simp
  from n[of True "\<lparr>errors_logged = [], history = [], attempted = [''add'']\<rparr>"] m[of True]
  have 2: "mcmd_run_lines ?sh True
      [''add user bob'', ''run other.script'', ''make bob admin''] blank_console
     = (Inl (McmdError (JStr ''Can't use the run command in a script: run other.script'')),
        \<lparr>errors_logged = [], history = [], attempted = [''add'']\<rparr>)"
    by simp
  from n[of True "\<lparr>errors_logged = [], history = [''add user bob''], attempted = [''add'']\<rparr>"] d l
  have 3: "mdev_run_lines ?sh True
      [''add user bob'', ''run other.script'', ''make bob admin''] blank_console
     = (Inl (SystemExit 1),
        \<lparr>errors_logged = [''Can't use the run command in a script: run other.script''],
         history = [''add user bob''], attempted = [''add'']\<rparr>)"
    by simp
  from 1 2 3 show ?thesis by blast
qed

text \<open>
  C9. Lines run in file order, each on the state the line before it left. For a script
  of the three lines A, B, C, none of them the run command, where the commands of A and
  C succeed and the command of B fails: with \<open>--ignore-errors\<close> the runner carries out
  all three (C on the state left by the report of B's error) and ends normally;
  without the flag it stops at B with the state left by the report of B's error, so C
  is never carried out. Both runners behave so; the runner of mdev also writes each
  line to the history before it dispatches it.
\<close>

theorem script_order_and_ignore_errors:
  fixes sh :: "'w shell"
  assumes "run_command sh = dispatch_by_spec action report"
    and "read_script sh name = Inr content" and "file_lines content = [A, B, C]"
    and "parse_line sh (split_space A) = Inr a" and "command a \<noteq> ''run''"
    and "parse_line sh (split_space B) = Inr b" and "command b \<noteq> ''run''"
    and "parse_line sh (split_space C) = Inr c" and "command c \<noteq> ''run''"
  shows "(\<forall>w w1 w2 w3 e.
            action (a\<lparr>attrs := AList.update ''arg_string'' A (attrs a)\<rparr>) w = (Inr (), w1) \<longrightarrow>
            action (b\<lparr>attrs := AList.update ''arg_string'' B (attrs b)\<rparr>) w1 = (Inl e, w2) \<longrightarrow>
            action (c\<lparr>attrs := AList.update ''arg_string'' C (attrs c)\<rparr>) (report e w2)
              = (Inr (), w3) \<longrightarrow>
              mcmd_run sh \<lparr>script = name, ignore_errors = True\<rparr> w = (Inr (), w3)
              \<and> mcmd_run sh \<lparr>script = name, ignore_errors = False\<rparr> w
                  = (Inl (SystemExit 1), report e w2))
       \<and> (\<forall>w h1 w1 h2 w2 h3 w3 e.
            history_write sh A w = (Inr (), h1) \<longrightarrow> action a h1 = (Inr (), w1) \<longrightarrow>
            history_write sh B w1 = (Inr (), h2) \<longrightarrow> action b h2 = (Inl e, w2) \<longrightarrow>
            history_write sh C (report e w2) = (Inr (), h3) \<longrightarrow> action c h3 = (Inr (), w3) \<longrightarrow>
              mdev_run sh \<lparr>script = name, ignore_errors = True\<rparr> w = (Inr (), w3)
              \<and> mdev_run sh \<lparr>script = name, ignore_errors = False\<rparr> w
                  = (Inl (SystemExit 1), report e w2))"
  using assms
  by (simp add: mcmd_run_def mdev_run_def dispatch_by_spec_def Let_def)

theorem script_order_and_ignore_errors_witness:
  "mcmd_run (recording_shell [''fail''] three_line_script)
      \<lparr>script = ''demo.script'', ignore_errors = True\<rparr> blank_console
     = (Inr (), \<lparr>errors_logged = [''failed: fail''], history = [],
                 attempted = [''add'', ''fail'', ''make'']\<rparr>)
   \<and> mcmd_run (recording_shell [''fail''] three_line_script)
      \<lparr>script = ''demo.script'', ignore_errors = False\<rparr> blank_console
     = (Inl (SystemExit 1), \<lparr>errors_logged = [''failed: fail''], history = [],
                             attempted = [''add'', ''fail'']\<rparr>)
   \<and> mdev_run (recording_shell [''fail''] three_line_script)
      \<lparr>script = ''demo.script'', ignore_errors = True\<rparr> blank_console
     = (Inr (), \<lparr>errors_logged = [''failed: fail''],
                 history = [''add user bob'', ''fail now'', ''make bob admin''],
                 attempted = [''add'', ''fail'', ''make'']\<rparr>)
   \<and> mdev_run (recording_shell [''fail''] three_line_script)
      \<lparr>script = ''demo.script'', ignore_errors = False\<rparr> blank_console
     = (Inl (SystemExit 1), \<lparr>errors_logged = [''failed: fail''],
                             history = [''add user bob'', ''fail now''],
                             attempted = [''add'', ''fail'']\<rparr>)"
proof -
  let ?sh = "recording_shell [''fail''] three_line_script"
  let ?act = "recording_action [''fail'']"
  let ?a = "\<lparr>command = ''add'', attrs = []\<rparr>"
  let ?b = "\<lparr>command = ''fail'', attrs = []\<rparr>"
  let ?c = "\<lparr>command = ''make'', attrs = []\<rparr>"
  let ?e = "McmdError (JStr ''failed: fail'')"
  have d: "run_command ?sh = dispatch_by_spec ?act console_report"
    by (simp add: recording_shell_def)
  have r: "read_script ?sh ''demo.script'' = Inr three_line_script"
    by (simp add: recording_shell_def)
  have f: "file_lines three_line_script = [''add user bob'', ''fail now'', ''make bob admin'']"
    by code_simp
  have pa: "parse_line ?sh (split_space ''add user bob'') = Inr ?a" by code_simp
  have pb: "parse_line ?sh (split_space ''fail now'') = Inr ?b" by code_simp
  have pc: "parse_line ?sh (split_space ''make bob admin'') = Inr ?c" by code_simp
  have na: "command ?a \<noteq> ''run''" and nb: "command ?b \<noteq> ''run''"
    and nc: "command ?c \<noteq> ''run''"
    by simp_all
  note t = script_order_and_ignore_errors[OF d r f pa na pb nb pc nc]
  have a1: "?act (?a\<lparr>attrs := AList.update ''arg_string'' ''add user bob'' (attrs ?a)\<rparr>)
              blank_console
            = (Inr (), \<lparr>errors_logged = [], history = [], attempted = [''add'']\<rparr>)"
    by code_simp
  have a2: "?act (?b\<lparr>attrs := AList.update ''arg_string'' ''fail now'' (attrs ?b)\<rparr>)
              \<lparr>errors_logged = [], history = [], attempted = [''add'']\<rparr>
            = (Inl ?e, \<lparr>errors_logged = [], history = [], attempted = [''add'', ''fail'']\<rparr>)"
    by code_simp
  have a3: "?act (?c\<lparr>attrs := AList.update ''arg_string'' ''make bob admin'' (attrs ?c)\<rparr>)
              (console_report ?e
                 \<lparr>errors_logged = [], history = [], attempted = [''add'', ''fail'']\<rparr>)
            = (Inr (), \<lparr>errors_logged = [''failed: fail''], history = [],
                        attempted = [''add'', ''fail'', ''make'']\<rparr>)"
    by code_simp
  have rep: "console_report ?e \<lparr>errors_logged = [], history = hs, attempted = cs\<rparr>
            = \<lparr>errors_logged = [''failed: fail''], history = hs, attempted = cs\<rparr>" for hs cs
    by (simp add: console_report_def console_log_def)
  from t have "\<forall>w w1 w2 w3 e.
            ?act (?a\<lparr>attrs := AList.update ''arg_string'' ''add user bob'' (attrs ?a)\<rparr>) w
              = (Inr (), w1) \<longrightarrow>
            ?act (?b\<lparr>attrs := AList.update ''arg_string'' ''fail now'' (attrs ?b)\<rparr>) w1
              = (Inl e, w2) \<longrightarrow>
            ?act (?c\<lparr>attrs := AList.update ''arg_string'' ''make bob admin'' (attrs ?c)\<rparr>)
              (console_report e w2) = (Inr (), w3) \<longrightarrow>
              mcmd_run ?sh \<lparr>script = ''demo.script'', ignore_errors = True\<rparr> w = (Inr (), w3)
              \<and> mcmd_run ?sh \<lparr>script = ''demo.script'', ignore_errors = False\<rparr> w
                  = (Inl (SystemExit 1), console_report e w2)"
    by (rule conjunct1)
  from this[rule_format, OF a1 a2 a3]
  have m: "mcmd_run ?sh \<lparr>script = ''demo.script'', ignore_errors = True\<rparr> blank_console
       = (Inr (), \<lparr>errors_logged = [''failed: fail''], history = [],
                 attempted = [''add'', ''fail'', ''make'']\<rparr>)
     \<and> mcmd_run ?sh \<lparr>script = ''demo.script'', ignore_errors = False\<rparr> blank_console
       = (Inl (SystemExit 1), \<lparr>errors_logged = [''failed: fail''], history = [],
                             attempted = [''add'', ''fail'']\<rparr>)"
    by (simp only: rep)
  have h1: "history_write ?sh ''add user bob'' blank_console
            = (Inr (), \<lparr>errors_logged = [], history = [''add user bob''], attempted = []\<rparr>)"
    by code_simp
  have b1: "?act ?a \<lparr>errors_logged = [], history = [''add user bob''], attempted = []\<rparr>
            = (Inr (), \<lparr>errors_logged = [], history = [''add user bob''],
                        attempted = [''add'']\<rparr>)"
    by code_simp
  have h2: "history_write ?sh ''fail now''
              \<lparr>errors_logged = [], history = [''add user bob''], attempted = [''add'']\<rparr>
            = (Inr (), \<lparr>errors_logged = [], history = [''add user bob'', ''fail now''],
                        attempted = [''add'']\<rparr>)"
    by code_simp
  have b2: "?act ?b \<lparr>errors_logged = [], history = [''add user bob'', ''fail now''],
                     attempted = [''add'']\<rparr>
            = (Inl ?e, \<lparr>errors_logged = [], history = [''add user bob'', ''fail now''],
                        attempted = [''add'', ''fail'']\<rparr>)"
    by code_simp
  have h3: "history_write ?sh ''make bob admin''
              (console_report ?e \<lparr>errors_logged = [], history = [''add user bob'', ''fail now''],
                                  attempted = [''add'', ''fail'']\<rparr>)
            = (Inr (), \<lparr>errors_logged = [''failed: fail''],
                        history = [''add user bob'', ''fail now'', ''make bob admin''],
                        attempted = [''add'', ''fail'']\<rparr>)"
    by code_simp
  have b3: "?act ?c \<lparr>errors_logged = [''failed: fail''],
                     history = [''add user bob'', ''fail now'', ''make bob admin''],
                     attempted = [''add'', ''fail'']\<rparr>
            = (Inr (), \<lparr>errors_logged = [''failed: fail''],
                        history = [''add user bob'', ''fail now'', ''make bob admin''],
                        attempted = [''add'', ''fail'', ''make'']\<rparr>)"
    by code_simp
  from t have "\<forall>w h1 w1 h2 w2 h3 w3 e.
            history_write ?sh ''add user bob'' w = (Inr (), h1) \<longrightarrow> ?act ?a h1 = (Inr (), w1) \<longrightarrow>
            history_write ?sh ''fail now'' w1 = (Inr (), h2) \<longrightarrow> ?act ?b h2 = (Inl e, w2) \<longrightarrow>
            history_write ?sh ''make bob admin'' (console_report e w2) = (Inr (), h3) \<longrightarrow>
            ?act ?c h3 = (Inr (), w3) \<longrightarrow>
              mdev_run ?sh \<lparr>script = ''demo.script'', ignore_errors = True\<rparr> w = (Inr (), w3)
              \<and> mdev_run ?sh \<lparr>script = ''demo.script'', ignore_errors = False\<rparr> w
                  = (Inl (SystemExit 1), console_report e w2)"
    by (rule conjunct2)
  from this[rule_format, OF h1 b1 h2 b2 h3 b3]
  have v: "mdev_run ?sh \<lparr>script = ''demo.script'', ignore_errors = True\<rparr> blank_console
       = (Inr (), \<lparr>errors_logged = [''failed: fail''],
                 history = [''add user bob'', ''fail now'', ''make bob admin''],
                 attempted = [''add'', ''fail'', ''make'']\<rparr>)
     \<and> mdev_run ?sh \<lparr>script = ''demo.script'', ignore_errors = False\<rparr> blank_console
       = (Inl (SystemExit 1), \<lparr>errors_logged = [''failed: fail''],
                             history = [''add user bob'', ''fail now''],
                             attempted = [''add'', ''fail'']\<rparr>)"
    by (simp only: rep)
  from m v show ?thesis by blast
qed

end
